theory Spec2Isabelle
  imports Complex_Main
begin

section \<open>Data model of the editor (src/App.tsx)\<close>

text \<open>
  The editor is the React component \<open>App\<close>. Its state is the collection of
  \<open>useState\<close> cells of the component; a handler is a function from the state of the
  render it was created in to the state after its updates have been committed.
  JavaScript strings are modelled as \<open>string\<close>, one \<open>char\<close> per code unit
  (code units above 255 are not represented); numbers that the code only uses as
  integers (the history index, the credits counter) are \<open>int\<close>.
\<close>

datatype tab = Retouch | Character | Harmonize | Adjust | Filters | CropTab | Resize
  | Variations | Infographics | Animate

datatype view = Start | TextToImage | Pricing | Tutorials

text \<open>A \<open>File\<close>: its bytes, its \<open>name\<close> and its \<open>type\<close>.\<close>

record image_file =
  fileBits :: "nat list"
  fileName :: string
  fileType :: string

text \<open>\<open>{ x: number, y: number }\<close>; the edit hotspot is rounded, the display hotspot is not.\<close>

type_synonym hotspot = "int \<times> int"
type_synonym display_point = "real \<times> real"

text \<open>A crop rectangle of react-image-crop: x, y, width, height.\<close>

datatype crop_rect = CropRect real real real real

record editor =
  view :: view
  isPro :: bool
  credits :: int
  showLimitModal :: bool
  history :: "image_file list"
  historyIndex :: int
  prompt :: string
  loadingTab :: "tab option"
  error :: "string option"
  editHotspot :: "hotspot option"
  displayHotspot :: "display_point option"
  activeTab :: tab
  retouchImage :: "image_file option"
  crop :: "crop_rect option"
  completedCrop :: "crop_rect option"
  variations :: "string list"
  selectedVariationIndex :: "int option"
  videoUrl :: "string option"
  isTourActive :: bool
  localStorage :: "string \<rightharpoonup> string"

text \<open>The \<open>useState\<close> initial values (App.tsx lines 57-88).\<close>

definition DAILY_FREE_LIMIT :: int where "DAILY_FREE_LIMIT = 5"
definition COST_IMAGE_GEN :: int where "COST_IMAGE_GEN = 1"
definition COST_VIDEO_GEN :: int where "COST_VIDEO_GEN = 5"

definition initial_editor :: "(string \<rightharpoonup> string) \<Rightarrow> editor" where
  "initial_editor ls =
     \<lparr> view = Start, isPro = False, credits = DAILY_FREE_LIMIT, showLimitModal = False,
       history = [], historyIndex = - 1, prompt = [], loadingTab = None, error = None,
       editHotspot = None, displayHotspot = None, activeTab = Retouch,
       retouchImage = None, crop = None, completedCrop = None, variations = [],
       selectedVariationIndex = None, videoUrl = None, isTourActive = False,
       localStorage = ls \<rparr>"

section \<open>Array primitives\<close>

text \<open>
  \<open>Array.prototype.slice(start, end)\<close>: a negative bound counts from the end, both
  bounds are clamped to the length, and an empty range gives the empty array.
\<close>

definition slice :: "'a list \<Rightarrow> int \<Rightarrow> int \<Rightarrow> 'a list" where
  "slice xs start end' =
     (let len = int (length xs);
          k = (if start < 0 then max (len + start) 0 else min start len);
          final = (if end' < 0 then max (len + end') 0 else min end' len)
      in take (nat (final - k)) (drop (nat k) xs))"

text \<open>\<open>xs[i] ?? null\<close>: an index outside the array reads \<open>undefined\<close>, which \<open>??\<close> turns into \<open>null\<close>.\<close>

definition index_or_null :: "'a list \<Rightarrow> int \<Rightarrow> 'a option" where
  "index_or_null xs i = (if 0 \<le> i \<and> i < int (length xs) then Some (xs ! nat i) else None)"

section \<open>The history store\<close>

text \<open>Lines 155-156 and 192-193.\<close>

definition currentImage :: "editor \<Rightarrow> image_file option" where
  "currentImage s = index_or_null (history s) (historyIndex s)"

definition originalImage :: "editor \<Rightarrow> image_file option" where
  "originalImage s = index_or_null (history s) 0"

definition canUndo :: "editor \<Rightarrow> bool" where
  "canUndo s = (historyIndex s > 0)"

definition canRedo :: "editor \<Rightarrow> bool" where
  "canRedo s = (historyIndex s < int (length (history s)) - 1)"

text \<open>
  \<open>addImageToHistory\<close> (lines 195-206) is a \<open>useCallback\<close> closure over \<open>history\<close> and
  \<open>historyIndex\<close>: \<open>h\<close> and \<open>i\<close> are the values it captured, \<open>s\<close> is the state its
  setters update. Nothing in its body throws.
\<close>

definition addImageToHistory :: "image_file list \<Rightarrow> int \<Rightarrow> image_file \<Rightarrow> editor \<Rightarrow> editor" where
  "addImageToHistory h i newImageFile s =
     (let newHistory = slice h 0 (i + 1) @ [newImageFile]
      in s\<lparr> history := newHistory,
            historyIndex := int (length newHistory) - 1,
            crop := None,
            completedCrop := None,
            variations := [],
            selectedVariationIndex := None,
            videoUrl := None,
            retouchImage := None \<rparr>)"

text \<open>The callback invoked from the render it was created in.\<close>

definition appendVersion :: "image_file \<Rightarrow> editor \<Rightarrow> editor" where
  "appendVersion newImageFile s = addImageToHistory (history s) (historyIndex s) newImageFile s"

text \<open>\<open>handleImageUpload\<close> (lines 208-229).\<close>

definition handleImageUpload :: "image_file \<Rightarrow> editor \<Rightarrow> editor" where
  "handleImageUpload f s =
     (let s1 = s\<lparr> error := None,
                  history := [f],
                  historyIndex := 0,
                  editHotspot := None,
                  displayHotspot := None,
                  activeTab := Retouch,
                  crop := None,
                  completedCrop := None,
                  variations := [],
                  selectedVariationIndex := None,
                  videoUrl := None,
                  retouchImage := None,
                  view := Start \<rparr>
      in case localStorage s ''brainwave_tour_seen'' of
           None \<Rightarrow> s1\<lparr> isTourActive := True \<rparr>
         | Some tourSeen \<Rightarrow> if tourSeen = [] then s1\<lparr> isTourActive := True \<rparr> else s1)"

text \<open>
  \<open>handleAnimationSelect\<close> (lines 231-248): \<open>files\<close> is the \<open>FileList | null\<close> of the
  input element; \<open>files[0]\<close> is its first entry when there is one.
\<close>

definition handleAnimationSelect :: "image_file list option \<Rightarrow> editor \<Rightarrow> editor" where
  "handleAnimationSelect files s =
     (case files of
        None \<Rightarrow> s
      | Some [] \<Rightarrow> s
      | Some (f # _) \<Rightarrow>
          s\<lparr> error := None,
             history := [f],
             historyIndex := 0,
             editHotspot := None,
             displayHotspot := None,
             activeTab := Animate,
             crop := None,
             completedCrop := None,
             variations := [],
             selectedVariationIndex := None,
             videoUrl := None,
             retouchImage := None,
             view := Start \<rparr>)"

text \<open>\<open>handleUndo\<close>, \<open>handleRedo\<close>, \<open>handleReset\<close>, \<open>handleUploadNew\<close> (lines 587-636).\<close>

definition handleUndo :: "editor \<Rightarrow> editor" where
  "handleUndo s =
     (if canUndo s then
        s\<lparr> historyIndex := historyIndex s - 1,
           editHotspot := None,
           displayHotspot := None,
           variations := [],
           selectedVariationIndex := None,
           videoUrl := None,
           retouchImage := None \<rparr>
      else s)"

definition handleRedo :: "editor \<Rightarrow> editor" where
  "handleRedo s =
     (if canRedo s then
        s\<lparr> historyIndex := historyIndex s + 1,
           editHotspot := None,
           displayHotspot := None,
           variations := [],
           selectedVariationIndex := None,
           videoUrl := None,
           retouchImage := None \<rparr>
      else s)"

definition handleReset :: "editor \<Rightarrow> editor" where
  "handleReset s =
     (if length (history s) > 0 then
        s\<lparr> historyIndex := 0,
           error := None,
           editHotspot := None,
           displayHotspot := None,
           variations := [],
           selectedVariationIndex := None,
           videoUrl := None,
           retouchImage := None \<rparr>
      else s)"

definition handleUploadNew :: "editor \<Rightarrow> editor" where
  "handleUploadNew s =
     s\<lparr> history := [],
        historyIndex := - 1,
        error := None,
        prompt := [],
        editHotspot := None,
        displayHotspot := None,
        variations := [],
        selectedVariationIndex := None,
        videoUrl := None,
        retouchImage := None,
        view := Start \<rparr>"

section \<open>Strings, thrown values and data URLs\<close>

text \<open>
  A value that a \<open>throw\<close> or a rejected promise carries: an \<open>Error\<close> object with its
  message, or any other value, with its \<open>message\<close> property when it has one.
\<close>

datatype thrown = ErrorObject string | OtherValue "string option"

text \<open>The decimal rendering of a number in a template literal or by \<open>toString()\<close>.\<close>

fun show_nat :: "nat \<Rightarrow> string" where
  "show_nat n =
     (if n < 10 then [char_of (48 + n)]
      else show_nat (n div 10) @ [char_of (48 + n mod 10)])"

declare show_nat.simps [simp del]

definition show_int :: "int \<Rightarrow> string" where
  "show_int i = (if i < 0 then CHR ''-'' # show_nat (nat (- i)) else show_nat (nat i))"

text \<open>
  \<open>String.prototype.trim\<close> removes white space and line terminators at both ends; within
  the code units represented these are tab, line feed, vertical tab, form feed, carriage
  return, space and no-break space.
\<close>

definition white_space :: "char \<Rightarrow> bool" where
  "white_space c = (of_char c \<in> {9, 10, 11, 12, 13, 32, 160 :: nat})"

definition trim :: "string \<Rightarrow> string" where
  "trim str = rev (dropWhile white_space (rev (dropWhile white_space str)))"

text \<open>\<open>str.split(',')\<close>: the pieces between the separators; the empty string gives one empty piece.\<close>

fun split_on :: "char \<Rightarrow> string \<Rightarrow> string list" where
  "split_on c [] = [] # []"
| "split_on c (x # xs) =
     (if x = c then [] # split_on c xs
      else (case split_on c xs of
              [] \<Rightarrow> [x] # []
            | y # ys \<Rightarrow> (x # y) # ys))"

text \<open>
  \<open>str.match(/:(.*?);/)\<close>, its capture group: \<open>lazy_until_semicolon\<close> matches
  \<open>(.*?);\<close> at the start of its argument (the dot does not match a line terminator),
  \<open>match_mime\<close> tries each colon from the left.
\<close>

definition line_terminator :: "char \<Rightarrow> bool" where
  "line_terminator c = (of_char c \<in> {10, 13 :: nat})"

fun lazy_until_semicolon :: "string \<Rightarrow> string option" where
  "lazy_until_semicolon [] = None"
| "lazy_until_semicolon (c # cs) =
     (if c = CHR '';'' then Some []
      else if line_terminator c then None
      else map_option ((#) c) (lazy_until_semicolon cs))"

fun match_mime :: "string \<Rightarrow> string option" where
  "match_mime [] = None"
| "match_mime (c # cs) =
     (if c = CHR '':'' then
        (case lazy_until_semicolon cs of
           Some m \<Rightarrow> Some m
         | None \<Rightarrow> match_mime cs)
      else match_mime cs)"

text \<open>
  The loop \<open>while (n--) u8arr[n] = bstr.charCodeAt(n)\<close> of \<open>dataURLtoFile\<close>, from
  \<open>n = bstr.length\<close> down to 0.
\<close>

fun fill_bytes :: "string \<Rightarrow> nat \<Rightarrow> nat list \<Rightarrow> nat list" where
  "fill_bytes bstr 0 u8arr = u8arr"
| "fill_bytes bstr (Suc n) u8arr = fill_bytes bstr n (u8arr[n := of_char (bstr ! n) mod 256])"

text \<open>
  The \<open>type\<close> of a \<open>File\<close> built with the option \<open>{ type: t }\<close>: the option in
  ASCII lower case, or the empty string when it has a character outside the range
  U+0020 to U+007E.
\<close>

definition ascii_lower :: "char \<Rightarrow> char" where
  "ascii_lower c =
     (if 65 \<le> (of_char c :: nat) \<and> (of_char c :: nat) \<le> 90 then char_of (of_char c + 32 :: nat)
      else c)"

definition file_type_option :: "string \<Rightarrow> string" where
  "file_type_option t =
     (if list_all (\<lambda>c. 32 \<le> (of_char c :: nat) \<and> (of_char c :: nat) \<le> 126) t
      then map ascii_lower t else [])"

text \<open>
  \<open>dataURLtoFile\<close> (lines 31-45). \<open>atob\<close> is the browser's base64 decoder, a parameter:
  it returns the decoded binary string or throws.
\<close>

definition dataURLtoFile ::
  "(string \<Rightarrow> thrown + string) \<Rightarrow> string \<Rightarrow> string \<Rightarrow> thrown + image_file" where
  "dataURLtoFile atob dataurl filename =
     (let arr = split_on CHR '','' dataurl in
      if length arr < 2 then Inl (ErrorObject ''Invalid data URL'')
      else
        (case match_mime (arr ! 0) of
           None \<Rightarrow> Inl (ErrorObject ''Could not parse MIME type from data URL'')
         | Some mime \<Rightarrow>
             if mime = [] then Inl (ErrorObject ''Could not parse MIME type from data URL'')
             else
               (case atob (arr ! 1) of
                  Inl e \<Rightarrow> Inl e
                | Inr bstr \<Rightarrow>
                    Inr \<lparr> fileBits = fill_bytes bstr (length bstr) (replicate (length bstr) 0),
                          fileName = filename,
                          fileType = file_type_option mime \<rparr>)))"

section \<open>Credits and the retouch handler\<close>

text \<open>
  \<open>checkCredits\<close> and \<open>deductCredits\<close> (lines 126-140). They read \<open>isPro\<close> and
  \<open>credits\<close> of the render they were created in (\<open>c\<close>) and update the current state.
\<close>

definition checkCredits :: "int \<Rightarrow> editor \<Rightarrow> bool \<times> editor" where
  "checkCredits cost s =
     (if isPro s then (True, s)
      else if credits s \<ge> cost then (True, s)
      else (False, s\<lparr> showLimitModal := True \<rparr>))"

definition deductCredits :: "editor \<Rightarrow> int \<Rightarrow> editor \<Rightarrow> editor" where
  "deductCredits c cost s =
     (if isPro c then s
      else
        (let newCredits = credits c - cost
         in s\<lparr> credits := newCredits,
               localStorage := (localStorage s)(''bw_credits'' \<mapsto> show_int newCredits) \<rparr>))"

text \<open>
  \<open>handleGenerate\<close> (lines 260-291) in its two halves. \<open>handleGenerate_begin\<close> is the
  part before the \<open>await\<close>: the guards, then \<open>setLoadingTab\<close> and \<open>setError\<close>; the
  flag says whether \<open>generateEditedImage\<close> was called. \<open>handleGenerate_settle\<close> is the
  part after it: \<open>c\<close> is the render the handler was called in (its closure), \<open>outcome\<close>
  is how the promise settled, \<open>now\<close> is \<open>Date.now()\<close>, and \<open>s\<close> is the state at that
  moment, which the setters update.
\<close>

definition thrown_message :: "thrown \<Rightarrow> string" where
  "thrown_message err =
     (case err of
        ErrorObject m \<Rightarrow> m
      | OtherValue _ \<Rightarrow> ''An unknown error occurred.'')"

definition handleGenerate_begin :: "editor \<Rightarrow> editor \<times> bool" where
  "handleGenerate_begin s =
     (if currentImage s = None \<or> loadingTab s \<noteq> None then (s, False)
      else
        (case checkCredits COST_IMAGE_GEN s of
           (False, s1) \<Rightarrow> (s1, False)
         | (True, s1) \<Rightarrow>
             if trim (prompt s) = [] then
               (s1\<lparr> error := Some ''Please enter a description for your edit.'' \<rparr>, False)
             else if editHotspot s = None then
               (s1\<lparr> error := Some ''Please click on the image to select an area to edit.'' \<rparr>,
                False)
             else (s1\<lparr> loadingTab := Some Retouch, error := None \<rparr>, True)))"

definition handleGenerate_catch :: "thrown \<Rightarrow> editor \<Rightarrow> editor" where
  "handleGenerate_catch err s =
     s\<lparr> error := Some (''Failed to generate the image. '' @ thrown_message err) \<rparr>"

definition handleGenerate_settle ::
  "nat \<Rightarrow> (string \<Rightarrow> thrown + string) \<Rightarrow> editor \<Rightarrow> thrown + string \<Rightarrow> editor \<Rightarrow> editor" where
  "handleGenerate_settle now atob c outcome s =
     (let s1 =
        (case outcome of
           Inl err \<Rightarrow> handleGenerate_catch err s
         | Inr editedImageUrl \<Rightarrow>
             (case dataURLtoFile atob editedImageUrl (''edited-'' @ show_nat now @ ''.png'') of
                Inl err \<Rightarrow> handleGenerate_catch err s
              | Inr newImageFile \<Rightarrow>
                  (deductCredits c COST_IMAGE_GEN
                     (addImageToHistory (history c) (historyIndex c) newImageFile s))
                    \<lparr> editHotspot := None, displayHotspot := None, retouchImage := None \<rparr>))
      in s1\<lparr> loadingTab := None \<rparr>)"

text \<open>The whole handler when nothing else happens while the request is in flight.\<close>

definition handleGenerate ::
  "nat \<Rightarrow> (string \<Rightarrow> thrown + string) \<Rightarrow> thrown + string \<Rightarrow> editor \<Rightarrow> editor" where
  "handleGenerate now atob outcome s =
     (case handleGenerate_begin s of
        (s1, False) \<Rightarrow> s1
      | (s1, True) \<Rightarrow> handleGenerate_settle now atob s outcome s1)"

section \<open>Variations (src/services/geminiService.ts)\<close>

text \<open>
  The part of a \<open>GenerateContentResponse\<close> that \<open>handleApiResponse\<close> reads: the prompt
  feedback, the candidates with the parts of their content and their finish reason, and
  the \<open>text\<close> getter. An optional field that is absent is \<open>None\<close>.
\<close>

record inline_data =
  mimeType :: string
  payload :: string

record response_part =
  inlineData :: "inline_data option"

record candidate =
  contentParts :: "response_part list option"
  finishReason :: "string option"

record response =
  blockReason :: "string option"
  blockReasonMessage :: "string option"
  candidates :: "candidate list option"
  responseText :: "string option"

text \<open>A string in a condition or on the left of \<open>||\<close>: \<open>undefined\<close> and \<open>''\<close> are falsy.\<close>

definition truthy :: "string option \<Rightarrow> bool" where
  "truthy v = (case v of None \<Rightarrow> False | Some str \<Rightarrow> str \<noteq> [])"

definition or_else :: "string option \<Rightarrow> string \<Rightarrow> string" where
  "or_else v d = (case v of None \<Rightarrow> d | Some str \<Rightarrow> if str = [] then d else str)"

text \<open>\<open>response.candidates?.[0]\<close>.\<close>

definition first_candidate :: "response \<Rightarrow> candidate option" where
  "first_candidate r =
     (case candidates r of
        None \<Rightarrow> None
      | Some [] \<Rightarrow> None
      | Some (c # _) \<Rightarrow> Some c)"

text \<open>\<open>handleApiResponse\<close> (lines 27-63); every \<open>throw\<close> is an \<open>Inl\<close>.\<close>

definition imagePartFromResponse :: "response \<Rightarrow> response_part option" where
  "imagePartFromResponse r =
     (case first_candidate r of
        None \<Rightarrow> None
      | Some c \<Rightarrow>
          (case contentParts c of
             None \<Rightarrow> None
           | Some ps \<Rightarrow> find (\<lambda>p. inlineData p \<noteq> None) ps))"

definition handleApiResponse :: "response \<Rightarrow> string \<Rightarrow> thrown + string" where
  "handleApiResponse r context' =
     (if truthy (blockReason r) then
        Inl (ErrorObject (''Request was blocked. Reason: '' @ the (blockReason r) @ ''. ''
                           @ or_else (blockReasonMessage r) []))
      else
        (case imagePartFromResponse r of
           Some p \<Rightarrow>
             (let d = the (inlineData p)
              in Inr (''data:'' @ mimeType d @ '';base64,'' @ payload d))
         | None \<Rightarrow>
             (let finishReason' = (case first_candidate r of
                                     None \<Rightarrow> None
                                   | Some c \<Rightarrow> finishReason c)
              in if truthy finishReason' \<and> finishReason' \<noteq> Some ''STOP'' then
                   Inl (ErrorObject (''Image generation for '' @ context'
                          @ '' stopped unexpectedly. Reason: '' @ the finishReason'
                          @ ''. This often relates to safety settings.''))
                 else
                   (let textFeedback = map_option trim (responseText r)
                    in Inl (ErrorObject (''The AI model did not return an image for the ''
                          @ context' @ ''. ''
                          @ (if truthy textFeedback then
                               ''The model responded with text: '' @ [CHR 0x22]
                                 @ the textFeedback @ [CHR 0x22]
                             else ''This can happen due to safety filters or if the request is too complex. Please try rephrasing your prompt to be more direct.'')))))))"

text \<open>
  \<open>fileToPart\<close> (lines 9-25): \<open>read\<close> is how the \<open>FileReader\<close> promise settled, with
  the data URL when it resolved. The part is the pair of the MIME type and the data.
\<close>

definition fileToPart :: "thrown + string \<Rightarrow> thrown + string \<times> string" where
  "fileToPart read =
     (case read of
        Inl e \<Rightarrow> Inl e
      | Inr dataUrl \<Rightarrow>
          (let arr = split_on CHR '','' dataUrl in
           if length arr < 2 then Inl (ErrorObject ''Invalid data URL'')
           else
             (case match_mime (arr ! 0) of
                None \<Rightarrow> Inl (ErrorObject ''Could not parse MIME type from data URL'')
              | Some m \<Rightarrow>
                  if m = [] then Inl (ErrorObject ''Could not parse MIME type from data URL'')
                  else Inr (m, arr ! 1))))"

text \<open>A settled promise of \<open>Promise.allSettled\<close>: \<open>Inl\<close> is rejected, \<open>Inr\<close> is fulfilled.\<close>

definition fulfilled :: "thrown + 'a \<Rightarrow> bool" where
  "fulfilled r = (case r of Inl _ \<Rightarrow> False | Inr _ \<Rightarrow> True)"

definition rejected :: "thrown + 'a \<Rightarrow> bool" where
  "rejected r = (case r of Inl _ \<Rightarrow> True | Inr _ \<Rightarrow> False)"

text \<open>\<open>firstError?.reason?.message\<close>.\<close>

definition reason_message :: "(thrown + 'a) option \<Rightarrow> string option" where
  "reason_message firstError =
     (case firstError of
        Some (Inl (ErrorObject m)) \<Rightarrow> Some m
      | Some (Inl (OtherValue m)) \<Rightarrow> m
      | _ \<Rightarrow> None)"

text \<open>
  \<open>generateSingleVariation\<close>: \<open>call\<close> is how \<open>ai.models.generateContent\<close> settled.
\<close>

definition generateSingleVariation :: "thrown + response \<Rightarrow> thrown + string" where
  "generateSingleVariation call =
     (case call of
        Inl e \<Rightarrow> Inl e
      | Inr r \<Rightarrow> handleApiResponse r ''variation'')"

text \<open>
  \<open>generateVariations\<close> (lines 185-228): \<open>read\<close> settles \<open>fileToPart\<close>, and
  \<open>call1\<close>, \<open>call2\<close>, \<open>call3\<close> settle the three requests, which are issued only once
  the part is there. The constructor of the client is taken not to throw.
\<close>

definition generateVariations ::
  "thrown + string \<Rightarrow> thrown + response \<Rightarrow> thrown + response \<Rightarrow> thrown + response
     \<Rightarrow> thrown + string list" where
  "generateVariations read call1 call2 call3 =
     (case fileToPart read of
        Inl e \<Rightarrow> Inl e
      | Inr originalImagePart \<Rightarrow>
          (let results = [generateSingleVariation call1,
                          generateSingleVariation call2,
                          generateSingleVariation call3];
               successfulVariations = map projr (filter fulfilled results)
           in if length successfulVariations = 0 then
                Inl (ErrorObject
                       (or_else (reason_message (find rejected results))
                          ''Failed to generate any variations. Please try a different prompt.''))
              else Inr successfulVariations))"

section \<open>Operations of the store as transitions\<close>

text \<open>
  The cursor invariant of the data model: the cursor is \<open>-1\<close> on the empty history and
  a valid index otherwise.
\<close>

definition cursor_inv :: "editor \<Rightarrow> bool" where
  "cursor_inv s =
     (if history s = [] then historyIndex s = - 1
      else 0 \<le> historyIndex s \<and> historyIndex s < int (length (history s)))"

datatype action =
    Load image_file
  | AnimationSelect "image_file list option"
  | Append image_file
  | Undo
  | Redo
  | Reset
  | UploadNew
  | Generate nat "string \<Rightarrow> thrown + string" "thrown + string"

fun step :: "action \<Rightarrow> editor \<Rightarrow> editor" where
  "step (Load f) s = handleImageUpload f s"
| "step (AnimationSelect files) s = handleAnimationSelect files s"
| "step (Append f) s = appendVersion f s"
| "step Undo s = handleUndo s"
| "step Redo s = handleRedo s"
| "step Reset s = handleReset s"
| "step UploadNew s = handleUploadNew s"
| "step (Generate now atob outcome) s = handleGenerate now atob outcome s"

text \<open>A session: the actions applied in order, each to the state the previous one left.\<close>

definition run :: "action list \<Rightarrow> editor \<Rightarrow> editor" where
  "run as s = foldl (\<lambda>t a. step a t) s as"

section \<open>The store as the specification words it\<close>

text \<open>
  The specification's \<open>append\<close>, from its own words: it fails with \<open>InvalidState\<close>
  on the empty sequence, and otherwise keeps the versions up to the cursor, adds the
  new one and moves the cursor to it.
\<close>

datatype store_error = InvalidState

definition spec_append ::
  "image_file \<Rightarrow> image_file list \<times> int \<Rightarrow> store_error + image_file list \<times> int" where
  "spec_append v st =
     (case st of
        (versions, cursor) \<Rightarrow>
          if versions = [] then Inl InvalidState
          else Inr (take (nat cursor + 1) versions @ [v], int (length (take (nat cursor + 1) versions))))"

text \<open>What the code's append does to the same pair.\<close>

definition code_append ::
  "image_file \<Rightarrow> editor \<Rightarrow> store_error + image_file list \<times> int" where
  "code_append v s = Inr (history (appendVersion v s), historyIndex (appendVersion v s))"

text \<open>
  The specification's \<open>undo\<close> and \<open>redo\<close>, from its own words: at the boundary they
  are no-ops that report "cannot undo" and "cannot redo"; otherwise they move the cursor
  by one.
\<close>

datatype store_report = CannotUndo | CannotRedo

definition spec_undo ::
  "image_file list \<times> int \<Rightarrow> store_report + image_file list \<times> int" where
  "spec_undo st =
     (case st of
        (versions, cursor) \<Rightarrow>
          if cursor = 0 then Inl CannotUndo else Inr (versions, cursor - 1))"

definition spec_redo ::
  "image_file list \<times> int \<Rightarrow> store_report + image_file list \<times> int" where
  "spec_redo st =
     (case st of
        (versions, cursor) \<Rightarrow>
          if cursor = int (length versions) - 1 then Inl CannotRedo
          else Inr (versions, cursor + 1))"

text \<open>
  What a call of the code's handlers gives on the same pair. \<open>handleUndo\<close> and
  \<open>handleRedo\<close> have no \<open>return\<close> and no \<open>throw\<close> in either branch, so a call
  completes normally with the state and hands nothing else back.
\<close>

definition code_undo ::
  "editor \<Rightarrow> store_report + image_file list \<times> int" where
  "code_undo s = Inr (history (handleUndo s), historyIndex (handleUndo s))"

definition code_redo ::
  "editor \<Rightarrow> store_report + image_file list \<times> int" where
  "code_redo s = Inr (history (handleRedo s), historyIndex (handleRedo s))"

section \<open>Sample values\<close>

definition img :: "nat \<Rightarrow> image_file" where
  "img n = \<lparr> fileBits = [n], fileName = ''v'' @ show_nat n @ ''.png'', fileType = ''image/png'' \<rparr>"

definition blank :: editor where
  "blank = initial_editor Map.empty"

text \<open>An editor with two versions and every kind of selection state set.\<close>

definition cluttered :: editor where
  "cluttered =
     (appendVersion (img 1) (handleImageUpload (img 0) blank))
       \<lparr> editHotspot := Some (3, 4), crop := Some (CropRect 0 0 10 10),
         variations := [''data:image/png;base64,AA==''], videoUrl := Some ''blob:video'' \<rparr>"

text \<open>An editor with two versions, the cursor on the first, showing the message of a failed edit.\<close>

definition failed_once :: editor where
  "failed_once =
     (handleUndo (appendVersion (img 1) (handleImageUpload (img 0) blank)))
       \<lparr> error := Some ''Failed to apply the filter. quota'' \<rparr>"

text \<open>An editor on which the retouch handler issues its request.\<close>

definition ready :: editor where
  "ready = (handleImageUpload (img 0) blank)\<lparr> prompt := ''add a hat'', editHotspot := Some (3, 4) \<rparr>"

text \<open>A response that carries one image part.\<close>

definition png_response :: response where
  "png_response =
     \<lparr> blockReason = None, blockReasonMessage = None,
       candidates = Some [\<lparr> contentParts = Some [\<lparr> inlineData = Some \<lparr> mimeType = ''image/png'', payload = ''AA=='' \<rparr> \<rparr>],
                            finishReason = Some ''STOP'' \<rparr>],
       responseText = None \<rparr>"

section \<open>Properties of the history store\<close>

lemma slice_prefix:
  "0 \<le> e \<Longrightarrow> slice xs 0 e = take (nat e) xs"
  by (auto simp: slice_def Let_def min_def)

lemma history_addImageToHistory:
  "history (addImageToHistory h i f s) = slice h 0 (i + 1) @ [f]"
  by (simp add: addImageToHistory_def Let_def)

lemma historyIndex_addImageToHistory:
  "historyIndex (addImageToHistory h i f s) = int (length (slice h 0 (i + 1)))"
  by (simp add: addImageToHistory_def Let_def)

lemma history_appendVersion:
  "- 1 \<le> historyIndex s \<Longrightarrow>
   history (appendVersion f s) = take (nat (historyIndex s + 1)) (history s) @ [f]"
  by (simp add: appendVersion_def history_addImageToHistory slice_prefix)

lemma historyIndex_appendVersion:
  "- 1 \<le> historyIndex s \<Longrightarrow>
   historyIndex (appendVersion f s) = int (min (length (history s)) (nat (historyIndex s + 1)))"
  by (simp add: appendVersion_def historyIndex_addImageToHistory slice_prefix)

lemma cursor_inv_appendVersion:
  "cursor_inv s \<Longrightarrow> cursor_inv (appendVersion f s)"
  by (auto simp: cursor_inv_def history_appendVersion historyIndex_appendVersion
      split: if_splits)

lemma appends_from_inv:
  "cursor_inv s \<Longrightarrow> historyIndex s = int (length (history s)) - 1 \<Longrightarrow>
   length (history (run (map Append fs) s)) = length (history s) + length fs \<and>
   historyIndex (run (map Append fs) s) = int (length (history s) + length fs) - 1"
proof (induction fs arbitrary: s)
  case Nil
  then show ?case by (simp add: run_def)
next
  case (Cons f fs)
  let ?t = "appendVersion f s"
  have lo: "- 1 \<le> historyIndex s"
    using Cons.prems by (auto simp: cursor_inv_def split: if_splits)
  have len: "length (history ?t) = length (history s) + 1"
    using Cons.prems lo by (simp add: history_appendVersion)
  have idx: "historyIndex ?t = int (length (history ?t)) - 1"
    using Cons.prems lo len by (simp add: historyIndex_appendVersion)
  have "run (map Append (f # fs)) s = run (map Append fs) ?t"
    by (simp add: run_def)
  with Cons.IH [OF cursor_inv_appendVersion [OF Cons.prems(1)] idx] len
  show ?case by simp
qed

lemma handleUndo_fields:
  "history (handleUndo s) = history s"
  "historyIndex (handleUndo s) = (if 0 < historyIndex s then historyIndex s - 1 else historyIndex s)"
  by (simp_all add: handleUndo_def canUndo_def)

lemma handleRedo_fields:
  "history (handleRedo s) = history s"
  "historyIndex (handleRedo s) =
     (if historyIndex s < int (length (history s)) - 1 then historyIndex s + 1 else historyIndex s)"
  by (simp_all add: handleRedo_def canRedo_def)

lemma handleReset_fields:
  "history (handleReset s) = history s"
  "historyIndex (handleReset s) = (if history s = [] then historyIndex s else 0)"
  by (simp_all add: handleReset_def)

lemma handleImageUpload_fields:
  "history (handleImageUpload f s) = [f]"
  "historyIndex (handleImageUpload f s) = 0"
  by (simp_all add: handleImageUpload_def Let_def split: option.splits)

lemma sample_loaded:
  "history (handleImageUpload (img 0) blank) = [img 0]"
  "historyIndex (handleImageUpload (img 0) blank) = 0"
  by (simp_all add: handleImageUpload_fields)

section \<open>Claims about the history store\<close>

text \<open>
  C1. On a non-empty history with the cursor in range, \<open>addImageToHistory\<close> replaces
  the versions by those up to and including the cursor followed by the new one, and puts
  the cursor on the last index. From the empty store, any number of appends gives that
  many versions with the cursor on the last one (every prefix of the list is such a run,
  so this holds after each append). The trace load v0, append v1, append v2, undo, undo,
  append v3 ends with the versions \<open>[v0, v3]\<close> and the cursor at 1.
\<close>

theorem addImageToHistory_truncates_and_appends:
  "(history s \<noteq> [] \<and> 0 \<le> historyIndex s \<and> historyIndex s < int (length (history s)) \<longrightarrow>
      history (appendVersion v s) = take (nat (historyIndex s) + 1) (history s) @ [v] \<and>
      historyIndex (appendVersion v s) = int (length (history (appendVersion v s))) - 1) \<and>
   (length (history (run (map Append vs) (initial_editor ls))) = length vs \<and>
    historyIndex (run (map Append vs) (initial_editor ls)) = int (length vs) - 1) \<and>
   (history (run [Load v0, Append v1, Append v2, Undo, Undo, Append v3] s) = [v0, v3] \<and>
    historyIndex (run [Load v0, Append v1, Append v2, Undo, Undo, Append v3] s) = 1)"
proof (intro conjI impI)
  assume a: "history s \<noteq> [] \<and> 0 \<le> historyIndex s \<and> historyIndex s < int (length (history s))"
  then have lo: "- 1 \<le> historyIndex s" by simp
  have n: "nat (historyIndex s + 1) = nat (historyIndex s) + 1" using a by arith
  show "history (appendVersion v s) = take (nat (historyIndex s) + 1) (history s) @ [v]"
    using history_appendVersion [OF lo, of v] n by simp
  then show "historyIndex (appendVersion v s) = int (length (history (appendVersion v s))) - 1"
    using historyIndex_appendVersion [OF lo, of v] n by simp
next
  have i: "cursor_inv (initial_editor ls)" "historyIndex (initial_editor ls) = int (length (history (initial_editor ls))) - 1"
    by (simp_all add: cursor_inv_def initial_editor_def)
  from appends_from_inv [OF i, of vs]
  show "length (history (run (map Append vs) (initial_editor ls))) = length vs"
    and "historyIndex (run (map Append vs) (initial_editor ls)) = int (length vs) - 1"
    by (simp_all add: initial_editor_def)
next
  show "history (run [Load v0, Append v1, Append v2, Undo, Undo, Append v3] s) = [v0, v3]"
    by (simp add: run_def history_appendVersion historyIndex_appendVersion
        handleUndo_fields handleImageUpload_fields)
  show "historyIndex (run [Load v0, Append v1, Append v2, Undo, Undo, Append v3] s) = 1"
    by (simp add: run_def history_appendVersion historyIndex_appendVersion
        handleUndo_fields handleImageUpload_fields)
qed


theorem addImageToHistory_truncates_and_appends_witness:
  "history (handleImageUpload (img 0) blank) \<noteq> [] \<and>
   0 \<le> historyIndex (handleImageUpload (img 0) blank) \<and>
   historyIndex (handleImageUpload (img 0) blank)
     < int (length (history (handleImageUpload (img 0) blank))) \<and>
   history (appendVersion (img 1) (handleImageUpload (img 0) blank)) = [img 0, img 1] \<and>
   historyIndex (appendVersion (img 1) (handleImageUpload (img 0) blank)) = 1"
  using addImageToHistory_truncates_and_appends
    [where s = "handleImageUpload (img 0) blank" and v = "img 1" and vs = "[]"
       and ls = Map.empty and ?v0.0 = "img 0" and ?v1.0 = "img 1" and ?v2.0 = "img 2"
       and ?v3.0 = "img 3"]
  by (simp add: sample_loaded)

text \<open>
  C3. On a non-empty history \<open>handleReset\<close> puts the cursor at 0 and keeps every
  version. After load v0, append v1, append v2, reset there are still three versions with
  the cursor at 0, and \<open>handleRedo\<close> moves the cursor to 1 and then to 2, where the
  current image is v1 and then v2.
\<close>

theorem handleReset_keeps_versions:
  "(history s \<noteq> [] \<longrightarrow>
      historyIndex (handleReset s) = 0 \<and> history (handleReset s) = history s) \<and>
   (history (run [Load v0, Append v1, Append v2, Reset] s) = [v0, v1, v2] \<and>
    historyIndex (run [Load v0, Append v1, Append v2, Reset] s) = 0 \<and>
    historyIndex (run [Load v0, Append v1, Append v2, Reset, Redo] s) = 1 \<and>
    currentImage (run [Load v0, Append v1, Append v2, Reset, Redo] s) = Some v1 \<and>
    historyIndex (run [Load v0, Append v1, Append v2, Reset, Redo, Redo] s) = 2 \<and>
    currentImage (run [Load v0, Append v1, Append v2, Reset, Redo, Redo] s) = Some v2)"
  by (simp add: run_def history_appendVersion historyIndex_appendVersion
        handleReset_fields handleRedo_fields handleImageUpload_fields currentImage_def
        index_or_null_def)

theorem handleReset_keeps_versions_witness:
  "history (handleImageUpload (img 0) blank) \<noteq> [] \<and>
   historyIndex (handleReset (handleImageUpload (img 0) blank)) = 0 \<and>
   history (handleReset (handleImageUpload (img 0) blank)) = [img 0]"
  using handleReset_keeps_versions
    [where s = "handleImageUpload (img 0) blank" and ?v0.0 = "img 0" and ?v1.0 = "img 1"
       and ?v2.0 = "img 2"]
  by (simp add: sample_loaded)

text \<open>
  C4, as the code has it. \<open>addImageToHistory\<close> has no failure branch: called on an
  empty history it returns normally, with the new version as the only one and the cursor
  at 0.
\<close>

theorem addImageToHistory_on_empty:
  "history s = [] \<Longrightarrow>
   code_append v s = Inr ([v], 0) \<and>
   history (appendVersion v s) = [v] \<and> historyIndex (appendVersion v s) = 0"
  by (simp add: code_append_def appendVersion_def history_addImageToHistory
        historyIndex_addImageToHistory slice_def Let_def)

theorem addImageToHistory_on_empty_witness:
  "history blank = [] \<and> code_append (img 0) blank = Inr ([img 0], 0) \<and>
   history (appendVersion (img 0) blank) = [img 0] \<and>
   historyIndex (appendVersion (img 0) blank) = 0"
  using addImageToHistory_on_empty [of blank "img 0"]
  by (simp add: blank_def initial_editor_def)

text \<open>
  C4 as stated fails on the blank editor: the specification's append answers
  \<open>InvalidState\<close> there, the code's append succeeds.
\<close>

theorem append_invalid_state_counterexample:
  "history blank = [] \<and>
   spec_append (img 0) (history blank, historyIndex blank) = Inl InvalidState \<and>
   code_append (img 0) blank = Inr ([img 0], 0)"
  by (simp add: blank_def initial_editor_def spec_append_def code_append_def appendVersion_def
        history_addImageToHistory historyIndex_addImageToHistory slice_def Let_def)

text \<open>
  C6. In a state of the store (one satisfying the cursor invariant) with the cursor above
  0, \<open>handleUndo\<close> followed at once by \<open>handleRedo\<close> gives back the same cursor and
  the same current image.
\<close>

theorem undo_redo_round_trip:
  assumes "cursor_inv s" and "0 < historyIndex s"
  shows "historyIndex (handleRedo (handleUndo s)) = historyIndex s \<and>
         currentImage (handleRedo (handleUndo s)) = currentImage s"
  using assms
  by (auto simp: cursor_inv_def currentImage_def handleRedo_fields handleUndo_fields
      split: if_splits)

theorem undo_redo_round_trip_witness:
  "cursor_inv (run [Load (img 0), Append (img 1)] blank) \<and>
   0 < historyIndex (run [Load (img 0), Append (img 1)] blank) \<and>
   historyIndex (handleRedo (handleUndo (run [Load (img 0), Append (img 1)] blank))) = 1 \<and>
   currentImage (handleRedo (handleUndo (run [Load (img 0), Append (img 1)] blank)))
     = Some (img 1)"
proof -
  let ?s = "run [Load (img 0), Append (img 1)] blank"
  have h: "history ?s = [img 0, img 1]" and i: "historyIndex ?s = 1"
    by (simp_all add: run_def history_appendVersion historyIndex_appendVersion
        handleImageUpload_fields)
  have c: "cursor_inv ?s" and p: "0 < historyIndex ?s"
    unfolding cursor_inv_def h i by simp_all
  have "currentImage ?s = Some (img 1)"
    unfolding currentImage_def index_or_null_def h i by simp
  with undo_redo_round_trip [OF c p] c p i show ?thesis by simp
qed

text \<open>
  C7, as the code has it. With the cursor at 0, \<open>handleUndo\<close> is a silent no-op: the
  whole state, the error message included, is left as it was, the call completes
  normally and hands nothing back, and \<open>canUndo\<close>, on which the undo button is
  disabled, is false. With the cursor on the last index \<open>handleRedo\<close> is a silent no-op
  in the same way, and \<open>canRedo\<close> is false.
\<close>

theorem undo_redo_boundaries:
  "(historyIndex s = 0 \<longrightarrow>
      handleUndo s = s \<and> error (handleUndo s) = error s \<and>
      code_undo s = Inr (history s, historyIndex s) \<and> \<not> canUndo s) \<and>
   (historyIndex s = int (length (history s)) - 1 \<longrightarrow>
      handleRedo s = s \<and> error (handleRedo s) = error s \<and>
      code_redo s = Inr (history s, historyIndex s) \<and> \<not> canRedo s)"
  by (simp add: handleUndo_def handleRedo_def canUndo_def canRedo_def code_undo_def
        code_redo_def)

theorem undo_redo_boundaries_witness:
  "historyIndex (handleImageUpload (img 0) blank) = 0 \<and>
   historyIndex (handleImageUpload (img 0) blank)
     = int (length (history (handleImageUpload (img 0) blank))) - 1 \<and>
   handleUndo (handleImageUpload (img 0) blank) = handleImageUpload (img 0) blank \<and>
   handleRedo (handleImageUpload (img 0) blank) = handleImageUpload (img 0) blank \<and>
   code_undo (handleImageUpload (img 0) blank) = Inr ([img 0], 0) \<and>
   code_redo (handleImageUpload (img 0) blank) = Inr ([img 0], 0) \<and>
   \<not> canUndo (handleImageUpload (img 0) blank) \<and>
   \<not> canRedo (handleImageUpload (img 0) blank)"
  using undo_redo_boundaries [of "handleImageUpload (img 0) blank"]
  by (simp add: sample_loaded)

text \<open>
  C7 as stated fails on an editor with one version, where the cursor is 0 and also the
  last index: the specification's undo and redo report "cannot undo" and "cannot redo"
  there, while the calls of the handlers complete normally, hand nothing back, and
  leave the error message empty.
\<close>

theorem undo_redo_report_counterexample:
  "historyIndex (handleImageUpload (img 0) blank) = 0 \<and>
   historyIndex (handleImageUpload (img 0) blank)
     = int (length (history (handleImageUpload (img 0) blank))) - 1 \<and>
   spec_undo (history (handleImageUpload (img 0) blank),
              historyIndex (handleImageUpload (img 0) blank)) = Inl CannotUndo \<and>
   code_undo (handleImageUpload (img 0) blank) = Inr ([img 0], 0) \<and>
   error (handleUndo (handleImageUpload (img 0) blank)) = None \<and>
   spec_redo (history (handleImageUpload (img 0) blank),
              historyIndex (handleImageUpload (img 0) blank)) = Inl CannotRedo \<and>
   code_redo (handleImageUpload (img 0) blank) = Inr ([img 0], 0) \<and>
   error (handleRedo (handleImageUpload (img 0) blank)) = None"
proof -
  let ?s = "handleImageUpload (img 0) blank"
  have u: "handleUndo ?s = ?s" and r: "handleRedo ?s = ?s"
    by (simp_all add: handleUndo_def handleRedo_def canUndo_def canRedo_def sample_loaded)
  have e: "error ?s = None"
    by (simp add: handleImageUpload_def Let_def split: option.splits)
  show ?thesis
    unfolding code_undo_def code_redo_def u r spec_undo_def spec_redo_def
    by (simp add: sample_loaded e)
qed

text \<open>
  C10, as the code has it. \<open>handleUndo\<close>, \<open>handleRedo\<close> and \<open>handleReset\<close> never
  change the sequence of versions, in any state. \<open>handleUndo\<close> and \<open>handleRedo\<close>
  change nothing but the cursor, the two hotspots, the variation candidates with their
  selection, the pending video URL and the retouch reference image; \<open>handleReset\<close>
  changes nothing but those and the error message.
\<close>

theorem cursor_moves_keep_versions:
  "history (handleUndo s) = history s \<and>
   history (handleRedo s) = history s \<and>
   history (handleReset s) = history s \<and>
   handleUndo s =
     s\<lparr> historyIndex := historyIndex (handleUndo s),
        editHotspot := editHotspot (handleUndo s),
        displayHotspot := displayHotspot (handleUndo s),
        variations := variations (handleUndo s),
        selectedVariationIndex := selectedVariationIndex (handleUndo s),
        videoUrl := videoUrl (handleUndo s),
        retouchImage := retouchImage (handleUndo s) \<rparr> \<and>
   handleRedo s =
     s\<lparr> historyIndex := historyIndex (handleRedo s),
        editHotspot := editHotspot (handleRedo s),
        displayHotspot := displayHotspot (handleRedo s),
        variations := variations (handleRedo s),
        selectedVariationIndex := selectedVariationIndex (handleRedo s),
        videoUrl := videoUrl (handleRedo s),
        retouchImage := retouchImage (handleRedo s) \<rparr> \<and>
   handleReset s =
     s\<lparr> historyIndex := historyIndex (handleReset s),
        error := error (handleReset s),
        editHotspot := editHotspot (handleReset s),
        displayHotspot := displayHotspot (handleReset s),
        variations := variations (handleReset s),
        selectedVariationIndex := selectedVariationIndex (handleReset s),
        videoUrl := videoUrl (handleReset s),
        retouchImage := retouchImage (handleReset s) \<rparr>"
proof (intro conjI)
  show "history (handleUndo s) = history s" by (simp add: handleUndo_fields)
  show "history (handleRedo s) = history s" by (simp add: handleRedo_fields)
  show "history (handleReset s) = history s" by (simp add: handleReset_fields)
  show "handleUndo s =
     s\<lparr> historyIndex := historyIndex (handleUndo s),
        editHotspot := editHotspot (handleUndo s),
        displayHotspot := displayHotspot (handleUndo s),
        variations := variations (handleUndo s),
        selectedVariationIndex := selectedVariationIndex (handleUndo s),
        videoUrl := videoUrl (handleUndo s),
        retouchImage := retouchImage (handleUndo s) \<rparr>"
    by (cases "canUndo s") (simp_all add: handleUndo_def)
  show "handleRedo s =
     s\<lparr> historyIndex := historyIndex (handleRedo s),
        editHotspot := editHotspot (handleRedo s),
        displayHotspot := displayHotspot (handleRedo s),
        variations := variations (handleRedo s),
        selectedVariationIndex := selectedVariationIndex (handleRedo s),
        videoUrl := videoUrl (handleRedo s),
        retouchImage := retouchImage (handleRedo s) \<rparr>"
    by (cases "canRedo s") (simp_all add: handleRedo_def)
  show "handleReset s =
     s\<lparr> historyIndex := historyIndex (handleReset s),
        error := error (handleReset s),
        editHotspot := editHotspot (handleReset s),
        displayHotspot := displayHotspot (handleReset s),
        variations := variations (handleReset s),
        selectedVariationIndex := selectedVariationIndex (handleReset s),
        videoUrl := videoUrl (handleReset s),
        retouchImage := retouchImage (handleReset s) \<rparr>"
    by (cases "history s = []") (simp_all add: handleReset_def)
qed

text \<open>
  C10 as stated fails: on an editor that shows the message of a failed edit,
  \<open>handleReset\<close> keeps the versions and also clears that message, which is neither the
  cursor nor selection state.
\<close>

theorem reset_clears_error_counterexample:
  "history failed_once = [img 0, img 1] \<and>
   historyIndex failed_once = 0 \<and>
   error failed_once = Some ''Failed to apply the filter. quota'' \<and>
   history (handleReset failed_once) = [img 0, img 1] \<and>
   error (handleReset failed_once) = None"
proof -
  have h: "history failed_once = [img 0, img 1]" and i: "historyIndex failed_once = 0"
    by (simp_all add: failed_once_def handleUndo_fields history_appendVersion
          historyIndex_appendVersion handleImageUpload_fields)
  have e: "error failed_once = Some ''Failed to apply the filter. quota''"
    by (simp add: failed_once_def)
  have n: "history failed_once \<noteq> []" unfolding h by simp
  have r: "error (handleReset failed_once) = None"
    using n by (simp add: handleReset_def)
  show ?thesis
    using e r by (simp add: handleReset_fields h i)
qed

lemma handleGenerate_settle_rejected:
  "handleGenerate_settle now atob c (Inl err) s =
     s\<lparr> error := Some (''Failed to generate the image. '' @ thrown_message err),
        loadingTab := None \<rparr>"
  by (simp add: handleGenerate_settle_def handleGenerate_catch_def)

lemma handleGenerate_begin_history:
  "history (fst (handleGenerate_begin s)) = history s"
  "historyIndex (fst (handleGenerate_begin s)) = historyIndex s"
  by (simp_all add: handleGenerate_begin_def checkCredits_def split: prod.splits bool.splits)

lemma cursor_inv_addImageToHistory: "cursor_inv (addImageToHistory h i f s)"
  by (simp add: cursor_inv_def history_addImageToHistory historyIndex_addImageToHistory)

lemma cursor_inv_cong:
  "history t = history s \<Longrightarrow> historyIndex t = historyIndex s \<Longrightarrow> cursor_inv t = cursor_inv s"
  by (simp add: cursor_inv_def)

lemma cursor_inv_handleGenerate_settle:
  assumes "cursor_inv s"
  shows "cursor_inv (handleGenerate_settle now atob c outcome s)"
proof -
  have fail: "cursor_inv ((handleGenerate_catch err s)\<lparr> loadingTab := None \<rparr>)" for err
    using assms by (simp add: cursor_inv_def handleGenerate_catch_def)
  have ok: "cursor_inv ((deductCredits c COST_IMAGE_GEN (addImageToHistory h i f s))
                \<lparr> editHotspot := None, displayHotspot := None, retouchImage := None,
                  loadingTab := None \<rparr>)" for h i f
    using cursor_inv_addImageToHistory [of h i f s]
    by (simp add: cursor_inv_def deductCredits_def Let_def)
  show ?thesis
    using fail ok
    by (simp add: handleGenerate_settle_def Let_def split: sum.splits)
qed

lemma cursor_inv_handleGenerate:
  assumes "cursor_inv s"
  shows "cursor_inv (handleGenerate now atob outcome s)"
proof -
  obtain s1 b where b: "handleGenerate_begin s = (s1, b)" by (cases "handleGenerate_begin s")
  have "cursor_inv s1"
    using handleGenerate_begin_history [of s] b assms cursor_inv_cong [of s1 s] by simp
  then show ?thesis
    using b cursor_inv_handleGenerate_settle [of s1 now atob s outcome]
    by (cases b) (simp_all add: handleGenerate_def)
qed

lemma cursor_inv_step: "cursor_inv s \<Longrightarrow> cursor_inv (step a s)"
proof (cases a)
  case (Generate now atob outcome)
  assume "cursor_inv s"
  then show ?thesis using Generate by (simp add: cursor_inv_handleGenerate)
next
  case (Append f)
  assume "cursor_inv s"
  then show ?thesis using Append by (simp add: cursor_inv_appendVersion)
next
  case (AnimationSelect files)
  assume "cursor_inv s"
  then show ?thesis using AnimationSelect
    by (auto simp: cursor_inv_def handleAnimationSelect_def split: option.splits list.splits)
qed (auto simp: cursor_inv_def handleUndo_fields handleRedo_fields handleReset_fields
       handleImageUpload_fields handleUploadNew_def split: if_splits)

lemma cursor_inv_run: "cursor_inv s \<Longrightarrow> cursor_inv (run as s)"
proof (induction as arbitrary: s)
  case Nil
  then show ?case by (simp add: run_def)
next
  case (Cons a as)
  have "run (a # as) s = run as (step a s)" by (simp add: run_def)
  with Cons.IH [OF cursor_inv_step [OF Cons.prems]] show ?case by simp
qed

text \<open>
  C8. The cursor invariant holds in the initial state, is preserved by every operation
  (load by upload or by animation select, append, undo, redo, reset, new-session
  discard, and the retouch edit, failed or successful), and so holds in every state a
  session reaches.
\<close>

theorem cursor_invariant:
  "cursor_inv (initial_editor ls) \<and>
   (cursor_inv s \<longrightarrow> cursor_inv (step a s)) \<and>
   cursor_inv (run as (initial_editor ls))"
proof -
  have i: "cursor_inv (initial_editor ls)"
    by (simp add: cursor_inv_def initial_editor_def)
  show ?thesis using i cursor_inv_step [of s a] cursor_inv_run [OF i, of as] by simp
qed

theorem cursor_invariant_witness:
  "cursor_inv blank \<and> cursor_inv (step (Append (img 0)) blank) \<and>
   cursor_inv (run [Load (img 0), Append (img 1), Undo] blank) \<and>
   historyIndex (run [Load (img 0), Append (img 1), Undo] blank) = 0 \<and>
   length (history (run [Load (img 0), Append (img 1), Undo] blank)) = 2"
  using cursor_invariant [of Map.empty blank "Append (img 0)" "[Load (img 0), Append (img 1), Undo]"]
  by (simp add: blank_def run_def history_appendVersion historyIndex_appendVersion
        handleImageUpload_fields handleUndo_fields)

section \<open>Claims about the selection state, failed edits and variations\<close>

text \<open>
  C5, as the code has it. \<open>addImageToHistory\<close> clears the crop rectangle, the variation
  candidates with their selection, and the pending video URL. \<open>handleUndo\<close>,
  \<open>handleRedo\<close> and \<open>handleReset\<close>, when they apply, clear the hotspot, the variation
  candidates with their selection, and the pending video URL.
\<close>

theorem handlers_clear_transient_state:
  "(crop (appendVersion v s) = None \<and> completedCrop (appendVersion v s) = None \<and>
    variations (appendVersion v s) = [] \<and> selectedVariationIndex (appendVersion v s) = None \<and>
    videoUrl (appendVersion v s) = None) \<and>
   (canUndo s \<longrightarrow>
      editHotspot (handleUndo s) = None \<and> displayHotspot (handleUndo s) = None \<and>
      variations (handleUndo s) = [] \<and> selectedVariationIndex (handleUndo s) = None \<and>
      videoUrl (handleUndo s) = None) \<and>
   (canRedo s \<longrightarrow>
      editHotspot (handleRedo s) = None \<and> displayHotspot (handleRedo s) = None \<and>
      variations (handleRedo s) = [] \<and> selectedVariationIndex (handleRedo s) = None \<and>
      videoUrl (handleRedo s) = None) \<and>
   (history s \<noteq> [] \<longrightarrow>
      editHotspot (handleReset s) = None \<and> displayHotspot (handleReset s) = None \<and>
      variations (handleReset s) = [] \<and> selectedVariationIndex (handleReset s) = None \<and>
      videoUrl (handleReset s) = None)"
  by (simp add: appendVersion_def addImageToHistory_def handleUndo_def handleRedo_def
        handleReset_def Let_def)

lemma cluttered_fields:
  "history cluttered = [img 0, img 1]" "historyIndex cluttered = 1"
  "editHotspot cluttered = Some (3, 4)" "crop cluttered = Some (CropRect 0 0 10 10)"
  by (simp_all add: cluttered_def history_appendVersion historyIndex_appendVersion
        handleImageUpload_fields)

theorem handlers_clear_transient_state_witness:
  "canUndo cluttered \<and> history cluttered \<noteq> [] \<and>
   canRedo (handleUndo cluttered) \<and>
   videoUrl (handleUndo cluttered) = None \<and>
   editHotspot (handleRedo (handleUndo cluttered)) = None \<and>
   variations (handleReset cluttered) = [] \<and>
   crop (appendVersion (img 2) cluttered) = None"
proof -
  have u: "canUndo cluttered" unfolding canUndo_def cluttered_fields by simp
  have r: "canRedo (handleUndo cluttered)"
    unfolding canRedo_def handleUndo_fields cluttered_fields by simp
  have h: "history cluttered \<noteq> []" unfolding cluttered_fields by simp
  show ?thesis
    using handlers_clear_transient_state [of "img 2" cluttered]
      handlers_clear_transient_state [of "img 2" "handleUndo cluttered"] u r h
    by simp
qed

text \<open>
  C5 as stated fails: a hotspot survives \<open>addImageToHistory\<close>, and a crop rectangle
  survives an undo that moves the cursor.
\<close>

theorem transient_state_counterexample:
  "editHotspot cluttered = Some (3, 4) \<and>
   editHotspot (appendVersion (img 2) cluttered) = Some (3, 4) \<and>
   canUndo cluttered \<and> crop cluttered = Some (CropRect 0 0 10 10) \<and>
   historyIndex (handleUndo cluttered) = 0 \<and>
   crop (handleUndo cluttered) = Some (CropRect 0 0 10 10)"
proof -
  have "editHotspot (appendVersion (img 2) cluttered) = editHotspot cluttered"
    by (simp add: appendVersion_def addImageToHistory_def Let_def)
  moreover have u: "canUndo cluttered" unfolding canUndo_def cluttered_fields by simp
  moreover have "crop (handleUndo cluttered) = crop cluttered"
    by (simp add: handleUndo_def)
  moreover have "historyIndex (handleUndo cluttered) = 0"
    unfolding handleUndo_fields cluttered_fields by simp
  ultimately show ?thesis unfolding cluttered_fields by simp
qed

text \<open>
  C2. When the remote edit call of \<open>handleGenerate\<close> rejects, the part of the handler
  after the \<open>await\<close> changes nothing but the error message and the loading flag,
  whatever the state is at that moment; over the whole handler the versions and the
  cursor are what they were before the call, and when the call was issued the error
  message is the failure text followed by the message of the rejection.
\<close>

theorem failed_edit_leaves_history:
  "handleGenerate_settle now atob c (Inl err) s =
     s\<lparr> error := Some (''Failed to generate the image. '' @ thrown_message err),
        loadingTab := None \<rparr> \<and>
   history (handleGenerate now atob (Inl err) s) = history s \<and>
   historyIndex (handleGenerate now atob (Inl err) s) = historyIndex s \<and>
   (snd (handleGenerate_begin s) \<longrightarrow>
      error (handleGenerate now atob (Inl err) s)
        = Some (''Failed to generate the image. '' @ thrown_message err))"
proof -
  obtain s1 b where b: "handleGenerate_begin s = (s1, b)" by (cases "handleGenerate_begin s")
  have h: "history s1 = history s" "historyIndex s1 = historyIndex s"
    using handleGenerate_begin_history [of s] b by simp_all
  show ?thesis
    using b h by (cases b) (simp_all add: handleGenerate_def handleGenerate_settle_rejected)
qed

lemma trim_sample: "trim ''add a hat'' = ''add a hat''"
  by (simp add: trim_def white_space_def)

theorem failed_edit_leaves_history_witness:
  "snd (handleGenerate_begin ready) \<and>
   history (handleGenerate 0 Inr (Inl (ErrorObject ''quota'')) ready) = [img 0] \<and>
   historyIndex (handleGenerate 0 Inr (Inl (ErrorObject ''quota'')) ready) = 0 \<and>
   error (handleGenerate 0 Inr (Inl (ErrorObject ''quota'')) ready)
     = Some ''Failed to generate the image. quota''"
proof -
  have c: "currentImage ready = Some (img 0)" "loadingTab ready = None"
    "isPro ready = False" "credits ready = 5" "prompt ready = ''add a hat''"
    "editHotspot ready = Some (3, 4)" "history ready = [img 0]" "historyIndex ready = 0"
    by (simp_all add: ready_def currentImage_def index_or_null_def handleImageUpload_def Let_def
          blank_def initial_editor_def DAILY_FREE_LIMIT_def)
  have b: "snd (handleGenerate_begin ready)"
    by (simp add: handleGenerate_begin_def checkCredits_def c COST_IMAGE_GEN_def trim_sample)
  show ?thesis
    using failed_edit_leaves_history [of 0 Inr ready "ErrorObject ''quota''" ready] b c
    by (simp add: thrown_message_def)
qed

lemma successes_eq:
  "map projr (filter fulfilled rs) = [v. Inr v \<leftarrow> rs]"
  by (induction rs) (auto simp: fulfilled_def split: sum.splits)

lemma successes_empty_iff:
  "([v. Inr v \<leftarrow> rs] = []) = (\<forall>r\<in>set rs. rejected r)"
  by (induction rs) (auto simp: rejected_def split: sum.splits)

lemma fulfilled_not_rejected: "fulfilled r = (\<not> rejected r)"
  by (simp add: fulfilled_def rejected_def split: sum.splits)

text \<open>
  C9. Once the image part is there and the three requests are issued,
  \<open>generateVariations\<close> returns the values of the fulfilled ones, in order, whenever
  at least one is fulfilled, and throws exactly when all three are rejected.
\<close>

theorem generateVariations_any_success:
  assumes "fileToPart read = Inr part"
  shows "((\<exists>r\<in>set (map generateSingleVariation [call1, call2, call3]). fulfilled r) \<longrightarrow>
            generateVariations read call1 call2 call3
              = Inr [v. Inr v \<leftarrow> map generateSingleVariation [call1, call2, call3]] \<and>
            [v. Inr v \<leftarrow> map generateSingleVariation [call1, call2, call3]] \<noteq> []) \<and>
         ((\<exists>e. generateVariations read call1 call2 call3 = Inl e) =
            (\<forall>r\<in>set (map generateSingleVariation [call1, call2, call3]). rejected r))"
proof -
  let ?rs = "map generateSingleVariation [call1, call2, call3]"
  have g: "generateVariations read call1 call2 call3 =
        (if [v. Inr v \<leftarrow> ?rs] = [] then
           Inl (ErrorObject (or_else (reason_message (find rejected ?rs))
                  ''Failed to generate any variations. Please try a different prompt.''))
         else Inr [v. Inr v \<leftarrow> ?rs])"
    unfolding generateVariations_def assms Let_def successes_eq [symmetric] by simp
  have e: "([v. Inr v \<leftarrow> ?rs] = []) = (\<forall>r\<in>set ?rs. rejected r)"
    by (rule successes_empty_iff)
  show ?thesis
  proof (cases "\<forall>r\<in>set ?rs. rejected r")
    case True
    then have "[v. Inr v \<leftarrow> ?rs] = []" using e by blast
    with True g show ?thesis by (simp add: fulfilled_not_rejected)
  next
    case False
    then have "[v. Inr v \<leftarrow> ?rs] \<noteq> []" using e by blast
    with False g show ?thesis by (simp add: fulfilled_not_rejected)
  qed
qed

lemma fileToPart_sample:
  "fileToPart (Inr ''data:image/png;base64,AA=='') = Inr (''image/png'', ''AA=='')"
  by (simp add: fileToPart_def Let_def line_terminator_def)

lemma single_samples:
  "generateSingleVariation (Inl (ErrorObject ''503'')) = Inl (ErrorObject ''503'')"
  "generateSingleVariation (Inr png_response) = Inr ''data:image/png;base64,AA==''"
  by (simp_all add: generateSingleVariation_def handleApiResponse_def png_response_def truthy_def
        imagePartFromResponse_def first_candidate_def)

theorem generateVariations_any_success_witness:
  "fileToPart (Inr ''data:image/png;base64,AA=='') = Inr (''image/png'', ''AA=='') \<and>
   generateVariations (Inr ''data:image/png;base64,AA=='')
       (Inl (ErrorObject ''503'')) (Inr png_response) (Inl (ErrorObject ''503''))
     = Inr [''data:image/png;base64,AA=='']"
  using generateVariations_any_success [OF fileToPart_sample,
      of "Inl (ErrorObject ''503'')" "Inr png_response" "Inl (ErrorObject ''503'')"]
  by (simp add: single_samples fulfilled_def fileToPart_sample)

end
